theory Spec2Isabelle
  imports Main "HOL-Library.Word" "HOL-Library.Sublist"
begin

section \<open>Go values used by package rpc\<close>

text \<open>
  The development embeds \<^verbatim>\<open>internal/repository/rpc/utils.go\<close>: the gas price query with
  its retry loop, the gas estimation with its compatibility fallback, the token name probe
  and the decoder of ABI encoded strings.
\<close>

subsection \<open>Errors\<close>

text \<open>
  A Go \<^verbatim>\<open>error\<close> is either built in this package by \<^verbatim>\<open>fmt.Errorf\<close> (the formatted
  message is kept) or handed over by the RPC client (its message is kept, since
  \<^verbatim>\<open>GasEstimate\<close> inspects it).
\<close>

datatype error = Errorf string | RpcError string

text \<open>The method \<^verbatim>\<open>err.Error()\<close>.\<close>

fun Error :: "error \<Rightarrow> string" where
  "Error (Errorf msg) = msg"
| "Error (RpcError msg) = msg"

text \<open>
  A call either returns its results or panics. Multiple results \<^verbatim>\<open>(v, err)\<close> are a
  pair whose second component is \<open>None\<close> for a \<^verbatim>\<open>nil\<close> error.
\<close>

datatype 'a exec = Return 'a | Panic

subsection \<open>Formatting with \<^verbatim>\<open>%d\<close> and \<^verbatim>\<open>%v\<close>\<close>

definition digit :: "nat \<Rightarrow> char" where
  "digit d = ''0123456789'' ! d"

fun decimal :: "nat \<Rightarrow> string" where
  "decimal n = (if n < 10 then [digit n] else decimal (n div 10) @ [digit (n mod 10)])"

declare decimal.simps [simp del]

subsection \<open>Byte slices\<close>

type_synonym byte = "8 word"

text \<open>
  The type \<^verbatim>\<open>int\<close> of a 64-bit target: a 64-bit word read in two's complement by
  \<^const>\<open>sint\<close>; its arithmetic wraps around.
\<close>

type_synonym go_int = "64 word"

text \<open>
  A \<^verbatim>\<open>[]byte\<close> is \<^verbatim>\<open>nil\<close> or a window on an array: \<open>elems\<close> are the
  \<^verbatim>\<open>len\<close> bytes the slice shows, \<open>spare\<close> the bytes of the array behind them, up to
  the capacity.
\<close>

datatype byte_slice = nil | Slice (elems: "byte list") (spare: "byte list")

fun bytes :: "byte_slice \<Rightarrow> byte list" where
  "bytes nil = []"
| "bytes (Slice xs ys) = xs"

fun array :: "byte_slice \<Rightarrow> byte list" where
  "array nil = []"
| "array (Slice xs ys) = xs @ ys"

definition len :: "byte_slice \<Rightarrow> nat" where
  "len a = length (bytes a)"

definition cap :: "byte_slice \<Rightarrow> nat" where
  "cap a = length (array a)"

text \<open>
  The slice expression \<^verbatim>\<open>a[low:high]\<close>. For a slice operand the bounds are checked against
  the capacity, not against the length: the run time panics unless
  \<^verbatim>\<open>0 <= low <= high <= cap(a)\<close>.
\<close>

definition slice_expr :: "byte_slice \<Rightarrow> go_int \<Rightarrow> go_int \<Rightarrow> byte_slice exec" where
  "slice_expr a low high =
     (if 0 \<le> sint low \<and> sint low \<le> sint high \<and> sint high \<le> int (cap a)
      then Return (if a = nil then nil
                   else Slice (take (nat (sint high) - nat (sint low)) (drop (nat (sint low)) (array a)))
                              (drop (nat (sint high)) (array a)))
      else Panic)"

text \<open>The conversion \<^verbatim>\<open>string(b)\<close> copies the bytes the slice shows.\<close>

definition string_of :: "byte_slice \<Rightarrow> string" where
  "string_of b = map (\<lambda>x. char_of (unat x)) (bytes b)"

subsection \<open>Big integers\<close>

text \<open>
  \<^verbatim>\<open>new(big.Int).SetBytes(buf)\<close> reads the bytes as a big-endian unsigned integer,
  \<^verbatim>\<open>BitLen\<close> is the length of the value in bits (0 for 0), \<^verbatim>\<open>Uint64\<close> gives the low
  64 bits, and \<^verbatim>\<open>int(...)\<close> reinterprets them as signed.
\<close>

definition big_endian :: "byte list \<Rightarrow> nat" where
  "big_endian bs = foldl (\<lambda>z b. z * 256 + unat b) 0 bs"

definition SetBytes :: "byte_slice \<Rightarrow> nat" where
  "SetBytes buf = big_endian (bytes buf)"

fun BitLen :: "nat \<Rightarrow> nat" where
  "BitLen n = (if n = 0 then 0 else Suc (BitLen (n div 2)))"

declare BitLen.simps [simp del]

definition Uint64 :: "nat \<Rightarrow> 64 word" where
  "Uint64 n = word_of_nat n"

definition Big32 :: nat where
  "Big32 = 32"

section \<open>Decoding an ABI encoded string\<close>

definition parseAbiString :: "byte_slice \<Rightarrow> (string \<times> error option) exec" where
  "parseAbiString data =
     (if data = nil \<or> len data < 96
      then Return ('''', Some (Errorf (''abi encoded string expected, only '' @ decimal (len data)
                                        @ '' bytes received'')))
      else
        (case slice_expr data 0 32 of
           Panic \<Rightarrow> Panic
         | Return head \<Rightarrow>
            (let bigOffset = SetBytes head in
             if BitLen bigOffset > 63
             then Return ('''', Some (Errorf (''string offset larger than int64: ''
                                               @ decimal bigOffset)))
             else
               (let offset = Uint64 (bigOffset + Big32) in
                (case slice_expr data (offset - 32) offset of
                   Panic \<Rightarrow> Panic
                 | Return lword \<Rightarrow>
                    (let bigLength = SetBytes lword in
                     if BitLen bigLength > 63
                     then Return ('''', Some (Errorf (''string length larger than int64: ''
                                                       @ decimal bigLength)))
                     else
                       (let length = Uint64 bigLength in
                        (case slice_expr data offset (offset + length) of
                           Panic \<Rightarrow> Panic
                         | Return body \<Rightarrow> Return (string_of body, None)))))))))"

text \<open>
  The fields of the encoding, as the decoder reads them from the bytes the buffer shows:
  \<open>be_word bs i\<close> is the big-endian value of the 32 bytes from index \<open>i\<close> on, the offset is
  the word at 0, the string starts 32 bytes behind the offset, and its length is the word in
  the 32 bytes before the start.
\<close>

definition be_word :: "byte list \<Rightarrow> nat \<Rightarrow> nat" where
  "be_word bs i = big_endian (take 32 (drop i bs))"

definition abi_offset :: "byte_slice \<Rightarrow> nat" where
  "abi_offset data = be_word (bytes data) 0"

definition abi_start :: "byte_slice \<Rightarrow> nat" where
  "abi_start data = abi_offset data + 32"

definition abi_length :: "byte_slice \<Rightarrow> nat" where
  "abi_length data = be_word (bytes data) (abi_start data - 32)"

text \<open>
  A buffer is well formed when it has the three words at least, both fields fit 63 bits, and
  the length word and the string lie in the buffer.
\<close>

definition in_bounds :: "byte_slice \<Rightarrow> bool" where
  "in_bounds data \<longleftrightarrow>
     abi_start data \<le> len data \<and> abi_start data + abi_length data \<le> len data"

definition well_formed :: "byte_slice \<Rightarrow> bool" where
  "well_formed data \<longleftrightarrow>
     96 \<le> len data \<and> abi_offset data < 2 ^ 63 \<and> abi_length data < 2 ^ 63 \<and> in_bounds data"

text \<open>The failures of the decoder, as the error taxonomy names them.\<close>

definition MalformedAbiPayload :: "nat \<Rightarrow> error" where
  "MalformedAbiPayload n =
     Errorf (''abi encoded string expected, only '' @ decimal n @ '' bytes received'')"

definition AbiValueOverflow :: "string \<Rightarrow> nat \<Rightarrow> error" where
  "AbiValueOverflow field v = Errorf (''string '' @ field @ '' larger than int64: '' @ decimal v)"

text \<open>The buffer of offset \<open>0x20\<close>, length 5 and the padded text \<open>hello\<close>.\<close>

definition hello_buf :: "byte list" where
  "hello_buf = replicate 31 0 @ [32] @ replicate 31 0 @ [5]
                 @ [104, 101, 108, 108, 111] @ replicate 27 0"

text \<open>A buffer of 96 bytes whose offset field is 96.\<close>

definition far_buf :: "byte list" where
  "far_buf = replicate 31 0 @ [96] @ replicate 64 0"

text \<open>Buffers of 96 bytes whose offset field, and whose length field, is \<open>2 ^ 63\<close>.\<close>

definition huge_offset_buf :: "byte list" where
  "huge_offset_buf = replicate 24 0 @ [128] @ replicate 71 0"

definition huge_length_buf :: "byte list" where
  "huge_length_buf = replicate 31 0 @ [32] @ replicate 24 0 @ [128] @ replicate 39 0"

section \<open>The bridge and its effects\<close>

subsection \<open>Requests\<close>

type_synonym address = "byte list"

text \<open>The anonymous struct that describes the transaction to estimate; a \<^verbatim>\<open>nil\<close> pointer is \<open>None\<close>.\<close>

record trx =
  From :: "address option"
  To :: "address option"
  Value :: "int option"
  Data :: "string option"

text \<open>
  Modelled from the spec: the package constant \<^verbatim>\<open>BlockTypeLatest\<close>, which
  \<^verbatim>\<open>utils.go\<close> uses and another file of package \<^verbatim>\<open>rpc\<close> declares. The spec describes it
  as the additional latest-block parameter of the estimate call; it is kept as an argument
  value of its own, next to the transaction.
\<close>

datatype rpc_arg = Trx "trx option" | BlockTypeLatest

text \<open>\<^verbatim>\<open>ethereum.CallMsg\<close>, with the fields that \<^verbatim>\<open>TokenNameAttempt\<close> sets.\<close>

record CallMsg =
  msg_From :: address
  msg_To :: "address option"
  msg_Data :: "byte list"

subsection \<open>The world\<close>

text \<open>
  What a bridge call does is recorded, oldest first: the log lines, the RPC requests, the
  contract calls and the sleeps (in milliseconds). The node behind the transport has a state
  of its own, which every request may change.
\<close>

datatype level = DebugLevel | ErrorLevel

datatype event =
  Logged level string
| Called string "rpc_arg list"
| ContractCalled CallMsg "int option"
| Slept nat

record 'n world =
  node :: 'n
  trace :: "event list"

text \<open>
  The bridge holds the RPC client and the contract client. \<^verbatim>\<open>ftm.rpc.Call(&result, ...)\<close>
  decodes the reply into the type of \<^verbatim>\<open>result\<close>, so there is one entry for each result
  type in use: \<^verbatim>\<open>hexutil.Big\<close> and \<^verbatim>\<open>hexutil.Uint64\<close>. A call that fails leaves
  \<^verbatim>\<open>result\<close> as it was.
\<close>

record 'n FtmBridge =
  rpc_big :: "string \<Rightarrow> rpc_arg list \<Rightarrow> 'n \<Rightarrow> (error + int) \<times> 'n"
  rpc_uint64 :: "string \<Rightarrow> rpc_arg list \<Rightarrow> 'n \<Rightarrow> (error + 64 word) \<times> 'n"
  eth_CallContract :: "CallMsg \<Rightarrow> int option \<Rightarrow> 'n \<Rightarrow> (error + byte_slice) \<times> 'n"

definition log :: "level \<Rightarrow> string \<Rightarrow> 'n world \<Rightarrow> 'n world" where
  "log l msg w = w\<lparr>trace := trace w @ [Logged l msg]\<rparr>"

definition Sleep :: "nat \<Rightarrow> 'n world \<Rightarrow> 'n world" where
  "Sleep ms w = w\<lparr>trace := trace w @ [Slept ms]\<rparr>"

definition Call_big ::
  "'n FtmBridge \<Rightarrow> string \<Rightarrow> rpc_arg list \<Rightarrow> 'n world \<Rightarrow> (error + int) \<times> 'n world" where
  "Call_big ftm method args w =
     (case rpc_big ftm method args (node w) of
        (r, n) \<Rightarrow> (r, \<lparr>node = n, trace = trace w @ [Called method args]\<rparr>))"

definition Call_uint64 ::
  "'n FtmBridge \<Rightarrow> string \<Rightarrow> rpc_arg list \<Rightarrow> 'n world \<Rightarrow> (error + 64 word) \<times> 'n world" where
  "Call_uint64 ftm method args w =
     (case rpc_uint64 ftm method args (node w) of
        (r, n) \<Rightarrow> (r, \<lparr>node = n, trace = trace w @ [Called method args]\<rparr>))"

definition CallContract ::
  "'n FtmBridge \<Rightarrow> CallMsg \<Rightarrow> int option \<Rightarrow> 'n world \<Rightarrow> (error + byte_slice) \<times> 'n world" where
  "CallContract ftm msg blockNumber w =
     (case eth_CallContract ftm msg blockNumber (node w) of
        (r, n) \<Rightarrow> (r, \<lparr>node = n, trace = trace w @ [ContractCalled msg blockNumber]\<rparr>))"

section \<open>The gas price\<close>

definition maxAcceptedGasPrice :: int where
  "maxAcceptedGasPrice = 1000000000000000000"

text \<open>
  The loop of \<^verbatim>\<open>GasPrice\<close>, with its variables \<^verbatim>\<open>price\<close> and \<^verbatim>\<open>try\<close> (a
  \<^verbatim>\<open>uint8\<close>). It ends since \<^verbatim>\<open>try\<close> grows in every round and no round starts with
  \<^verbatim>\<open>try > 2\<close> and goes on.
\<close>

function GasPrice_loop ::
  "'n FtmBridge \<Rightarrow> int \<Rightarrow> 8 word \<Rightarrow> 'n world \<Rightarrow> (int \<times> error option) \<times> 'n world" where
  "GasPrice_loop ftm price try w =
     (case Call_big ftm ''ftm_gasPrice'' [] w of
        (Inl err, w1) \<Rightarrow>
          ((price, Some err), log ErrorLevel ''current gas price could not be obtained'' w1)
      | (Inr price1, w1) \<Rightarrow>
          if price1 \<le> maxAcceptedGasPrice then ((price1, None), w1)
          else if try > 2
          then ((price1, Some (Errorf ''gas price not available, please try again later'')),
                log ErrorLevel ''can not get reasonable gas price from the backend server'' w1)
          else GasPrice_loop ftm price1 (try + 1) (Sleep 100 w1))"
  by pat_completeness auto
termination
  by (relation "measure (\<lambda>(ftm, price, try, w). 3 - unat try)")
     (auto simp: word_less_nat_alt unat_word_ariths)

declare GasPrice_loop.simps [simp del]

definition GasPrice :: "'n FtmBridge \<Rightarrow> 'n world \<Rightarrow> (int \<times> error option) \<times> 'n world" where
  "GasPrice ftm w = GasPrice_loop ftm 0 0 (log DebugLevel ''checking current gas price'' w)"

definition GasPriceUnavailable :: error where
  "GasPriceUnavailable = Errorf ''gas price not available, please try again later''"

text \<open>
  The transport seen from the loop: the state of the node after \<open>k\<close> gas price requests, and
  the reply to the request that follows them.
\<close>

fun node_after :: "'n FtmBridge \<Rightarrow> nat \<Rightarrow> 'n \<Rightarrow> 'n" where
  "node_after ftm 0 n = n"
| "node_after ftm (Suc k) n = node_after ftm k (snd (rpc_big ftm ''ftm_gasPrice'' [] n))"

definition gasPrice_reply :: "'n FtmBridge \<Rightarrow> nat \<Rightarrow> 'n \<Rightarrow> error + int" where
  "gasPrice_reply ftm k n = fst (rpc_big ftm ''ftm_gasPrice'' [] (node_after ftm k n))"

text \<open>The numbers of RPC requests and of sleeps in a trace.\<close>

definition attempts :: "event list \<Rightarrow> nat" where
  "attempts tr = length (filter (\<lambda>e. case e of Called m as \<Rightarrow> True | _ \<Rightarrow> False) tr)"

definition waits :: "event list \<Rightarrow> nat" where
  "waits tr = length (filter (\<lambda>e. case e of Slept ms \<Rightarrow> True | _ \<Rightarrow> False) tr)"

section \<open>The gas estimate\<close>

text \<open>\<^verbatim>\<open>strings.Contains(s, substr)\<close>.\<close>

fun Contains :: "string \<Rightarrow> string \<Rightarrow> bool" where
  "Contains [] substr = (substr = [])"
| "Contains (c # s) substr = (prefix substr (c # s) \<or> Contains s substr)"

definition GasEstimateWithBlock ::
  "'n FtmBridge \<Rightarrow> trx option \<Rightarrow> 'n world \<Rightarrow> (64 word option \<times> error option) \<times> 'n world" where
  "GasEstimateWithBlock ftm trx w =
     (case Call_uint64 ftm ''ftm_estimateGas'' [Trx trx, BlockTypeLatest]
             (log DebugLevel ''calling for gas amount estimation with block details'' w) of
        (Inl err, w1) \<Rightarrow>
          ((None, Some err), log ErrorLevel (''can not estimate gas; '' @ Error err) w1)
      | (Inr val, w1) \<Rightarrow> ((Some val, None), w1))"

definition GasEstimate ::
  "'n FtmBridge \<Rightarrow> trx option \<Rightarrow> 'n world \<Rightarrow> (64 word option \<times> error option) \<times> 'n world" where
  "GasEstimate ftm trx w =
     (case Call_uint64 ftm ''ftm_estimateGas'' [Trx trx]
             (log DebugLevel ''calling for gas amount estimation'' w) of
        (Inl err, w1) \<Rightarrow>
          if Contains (Error err) ''missing value''
          then GasEstimateWithBlock ftm trx w1
          else ((None, Some err), log ErrorLevel (''can not estimate gas; '' @ Error err) w1)
      | (Inr val, w1) \<Rightarrow> ((Some val, None), w1))"

text \<open>The two requests of the estimate, and the events a call adds to the trace.\<close>

definition primary_call :: "trx option \<Rightarrow> event" where
  "primary_call trx = Called ''ftm_estimateGas'' [Trx trx]"

definition fallback_call :: "trx option \<Rightarrow> event" where
  "fallback_call trx = Called ''ftm_estimateGas'' [Trx trx, BlockTypeLatest]"

definition issued :: "'n world \<Rightarrow> 'n world \<Rightarrow> event list" where
  "issued w w' = drop (length (trace w)) (trace w')"

section \<open>The token name\<close>

definition solidityCallFunctionName :: "byte list" where
  "solidityCallFunctionName = [0x06, 0xfd, 0xde, 0x03]"

definition TokenNameAttempt ::
  "'n FtmBridge \<Rightarrow> address option \<Rightarrow> 'n world \<Rightarrow> (string \<times> error option) exec \<times> 'n world" where
  "TokenNameAttempt ftm adr w =
     (case CallContract ftm
             \<lparr>msg_From = replicate 20 0, msg_To = adr, msg_Data = solidityCallFunctionName\<rparr>
             None w of
        (Inl err, w1) \<Rightarrow> (Return ('''', Some err), w1)
      | (Inr data, w1) \<Rightarrow> (parseAbiString data, w1))"

text \<open>Transports for the examples: their node counts the requests it has answered.\<close>

definition always_high :: "nat FtmBridge" where
  "always_high =
     \<lparr>rpc_big = (\<lambda>method args n. (Inr 2000000000000000000, Suc n)),
      rpc_uint64 = (\<lambda>method args n. (Inl (RpcError ''unused''), Suc n)),
      eth_CallContract = (\<lambda>msg blockNumber n. (Inr (Slice far_buf []), Suc n))\<rparr>"

definition high_then_ok :: "nat FtmBridge" where
  "high_then_ok =
     \<lparr>rpc_big = (\<lambda>method args n. (if n = 0 then Inr 2000000000000000000 else Inr 5, Suc n)),
      rpc_uint64 = (\<lambda>method args n.
         (if args = [Trx None] then Inl (RpcError ''missing value for required argument 1'')
          else Inr 21000, Suc n)),
      eth_CallContract = (\<lambda>msg blockNumber n. (Inr (Slice hello_buf []), Suc n))\<rparr>"

definition high_then_down :: "nat FtmBridge" where
  "high_then_down =
     \<lparr>rpc_big = (\<lambda>method args n.
         (if n < 2 then Inr 2000000000000000000 else Inl (RpcError ''connection refused''), Suc n)),
      rpc_uint64 = (\<lambda>method args n.
         (if args = [Trx None] then Inl (RpcError ''missing value for required argument 1'')
          else Inl (RpcError ''execution reverted''), Suc n)),
      eth_CallContract = (\<lambda>msg blockNumber n. (Inl (RpcError ''connection refused''), Suc n))\<rparr>"

definition unrelated_failure :: "nat FtmBridge" where
  "unrelated_failure =
     \<lparr>rpc_big = (\<lambda>method args n. (Inl (RpcError ''connection refused''), Suc n)),
      rpc_uint64 = (\<lambda>method args n. (Inl (RpcError ''execution reverted''), Suc n)),
      eth_CallContract = (\<lambda>msg blockNumber n. (Inl (RpcError ''connection refused''), Suc n))\<rparr>"

definition w0 :: "nat world" where
  "w0 = \<lparr>node = 0, trace = []\<rparr>"

section \<open>Facts about the Go values\<close>

lemma BitLen_le_iff: "BitLen n \<le> k \<longleftrightarrow> n < 2 ^ k"
proof (induction n arbitrary: k rule: BitLen.induct)
  case (1 n)
  show ?case
  proof (cases "n = 0")
    case True
    then show ?thesis by (simp add: BitLen.simps)
  next
    case False
    note nz = this
    show ?thesis
    proof (cases k)
      case 0
      with nz show ?thesis by (simp add: BitLen.simps)
    next
      case (Suc j)
      have "BitLen n \<le> Suc j \<longleftrightarrow> BitLen (n div 2) \<le> j"
        using nz by (subst BitLen.simps) simp
      also have "\<dots> \<longleftrightarrow> n div 2 < 2 ^ j"
        using "1.IH" [OF nz] .
      also have "\<dots> \<longleftrightarrow> n < 2 ^ j * 2"
        by (rule div_less_iff_less_mult) simp
      finally show ?thesis using Suc by (simp add: mult.commute)
    qed
  qed
qed

lemma BitLen_63: "BitLen n > 63 \<longleftrightarrow> 2 ^ 63 \<le> n"
  using BitLen_le_iff [of n 63] by (simp flip: not_le)

lemma sint_Uint64: "sint (Uint64 n) = signed_take_bit 63 (int n)"
  by (simp add: Uint64_def signed_of_nat)

lemma sint_Uint64_small:
  assumes "n < 2 ^ 63"
  shows "sint (Uint64 n) = int n"
proof -
  have "int n < 2 ^ 63" using assms by simp
  then show ?thesis
    unfolding sint_Uint64 by (intro signed_take_bit_int_eq_self) auto
qed

lemma sint_Uint64_neg:
  assumes "2 ^ 63 \<le> n" "n < 2 ^ 64"
  shows "sint (Uint64 n) < 0"
proof -
  have "(2::int) ^ 63 \<le> int n" using assms by simp
  from signed_take_bit_int_less_eq [OF this]
  have "signed_take_bit 63 (int n) \<le> int n - 2 ^ 64" by simp
  moreover have "int n < 2 ^ 64" using assms(2) by simp
  ultimately show ?thesis
    unfolding sint_Uint64 by linarith
qed

section \<open>How the decoder runs\<close>

lemma big_endian_foldl:
  "foldl (\<lambda>z b. z * 256 + unat b) z (bs :: byte list) = z * 256 ^ length bs + big_endian bs"
proof (induction bs arbitrary: z)
  case Nil
  show ?case by (simp add: big_endian_def)
next
  case (Cons b bs)
  have "foldl (\<lambda>z b. z * 256 + unat b) z (b # bs)
          = (z * 256 + unat b) * 256 ^ length bs + big_endian bs"
    using Cons [of "z * 256 + unat b"] by simp
  moreover have "big_endian (b # bs) = unat b * 256 ^ length bs + big_endian bs"
    using Cons [of "unat b"] by (simp add: big_endian_def)
  ultimately show ?case by (simp add: algebra_simps)
qed

lemma big_endian_append:
  "big_endian (xs @ ys) = big_endian xs * 256 ^ length ys + big_endian ys"
proof -
  have "foldl (\<lambda>z b. z * 256 + unat b) (big_endian xs) ys
          = big_endian xs * 256 ^ length ys + big_endian ys"
    by (rule big_endian_foldl)
  then show ?thesis by (simp add: big_endian_def)
qed

lemma big_endian_zeros: "big_endian (replicate n 0) = 0"
  by (induction n) (simp_all add: big_endian_def)

lemma big_endian_single: "big_endian [b] = unat b"
  by (simp add: big_endian_def)

lemma slice_expr_head:
  assumes "32 \<le> len data"
  shows "slice_expr data 0 32 = Return (Slice (take 32 (bytes data)) (drop 32 (array data)))"
  using assms by (cases data) (simp_all add: slice_expr_def len_def cap_def)

lemma slice_expr_Uint64:
  assumes "data \<noteq> nil" "cap data < 2 ^ 63" "lo < 2 ^ 63" "d < 2 ^ 63"
  shows "slice_expr data (Uint64 lo) (Uint64 (lo + d)) =
           (if lo + d \<le> cap data
            then Return (Slice (take d (drop lo (array data))) (drop (lo + d) (array data)))
            else Panic)"
proof (cases "lo + d < 2 ^ 63")
  case True
  have lo: "sint (Uint64 lo) = int lo" using assms(3) by (rule sint_Uint64_small)
  have hi: "sint (Uint64 (lo + d)) = int (lo + d)" using True by (rule sint_Uint64_small)
  show ?thesis
    using assms(1) by (simp add: slice_expr_def lo hi nat_int_add)
next
  case False
  then have "2 ^ 63 \<le> lo + d" by simp
  moreover have "lo + d < 2 ^ 64" using assms(3,4) by simp
  ultimately have "sint (Uint64 (lo + d)) < 0" by (rule sint_Uint64_neg)
  moreover have "sint (Uint64 lo) = int lo" using assms(3) by (rule sint_Uint64_small)
  moreover have "\<not> lo + d \<le> cap data" using False assms(2) by simp
  ultimately show ?thesis
    by (simp add: slice_expr_def)
qed

lemma len_le_cap: "len data \<le> cap data"
  by (cases data) (simp_all add: len_def cap_def)

lemma be_word_array:
  assumes "i + 32 \<le> len data"
  shows "be_word (array data) i = be_word (bytes data) i"
  using assms by (cases data) (simp_all add: be_word_def len_def)

lemma parseAbiString_offset_overflow:
  assumes "96 \<le> len data" "2 ^ 63 \<le> abi_offset data"
  shows "parseAbiString data = Return ('''', Some (AbiValueOverflow ''offset'' (abi_offset data)))"
proof -
  have nn: "data \<noteq> nil" using assms(1) by (auto simp: len_def)
  have h: "slice_expr data 0 32 = Return (Slice (take 32 (bytes data)) (drop 32 (array data)))"
    using assms(1) by (intro slice_expr_head) simp
  have o: "63 < BitLen (abi_offset data)" using assms(2) by (simp add: BitLen_63)
  have sb: "SetBytes (Slice (take 32 (bytes data)) (drop 32 (array data))) = abi_offset data"
    by (simp add: SetBytes_def abi_offset_def be_word_def)
  show ?thesis
    using nn assms(1) o by (simp add: parseAbiString_def h sb AbiValueOverflow_def)
qed

lemma parseAbiString_eval:
  assumes "96 \<le> len data" "cap data < 2 ^ 63" "abi_offset data < 2 ^ 63"
  shows "parseAbiString data =
     (if cap data < abi_start data then Panic
      else if 2 ^ 63 \<le> be_word (array data) (abi_offset data)
      then Return ('''', Some (AbiValueOverflow ''length'' (be_word (array data) (abi_offset data))))
      else if cap data < abi_start data + be_word (array data) (abi_offset data) then Panic
      else Return (map (\<lambda>x. char_of (unat x))
                     (take (be_word (array data) (abi_offset data))
                        (drop (abi_start data) (array data))), None))"
proof -
  define off where "off = abi_offset data"
  define ln where "ln = be_word (array data) off"
  have nn: "data \<noteq> nil" using assms(1) by (auto simp: len_def)
  have h: "slice_expr data 0 32 = Return (Slice (take 32 (bytes data)) (drop 32 (array data)))"
    using assms(1) by (intro slice_expr_head) simp
  have sb: "SetBytes (Slice (take 32 (bytes data)) (drop 32 (array data))) = off"
    by (simp add: SetBytes_def abi_offset_def be_word_def off_def)
  have o: "\<not> 63 < BitLen off" using assms(3) by (simp add: BitLen_63 off_def)
  have s3: "Uint64 (off + 32) - 32 = Uint64 off"
    by (simp add: Uint64_def)
  have w: "slice_expr data (Uint64 off) (Uint64 (off + 32)) =
           (if off + 32 \<le> cap data
            then Return (Slice (take 32 (drop off (array data))) (drop (off + 32) (array data)))
            else Panic)"
    using nn assms(2,3) by (intro slice_expr_Uint64) (simp_all add: off_def)
  have sl: "SetBytes (Slice (take 32 (drop off (array data))) (drop (off + 32) (array data))) = ln"
    by (simp add: SetBytes_def be_word_def ln_def)
  have start: "parseAbiString data =
     (case slice_expr data (Uint64 off) (Uint64 (off + 32)) of
        Panic \<Rightarrow> Panic
      | Return lword \<Rightarrow>
          if BitLen (SetBytes lword) > 63
          then Return ('''', Some (AbiValueOverflow ''length'' (SetBytes lword)))
          else (case slice_expr data (Uint64 (off + 32)) (Uint64 (off + 32) + Uint64 (SetBytes lword)) of
                  Panic \<Rightarrow> Panic
                | Return body \<Rightarrow> Return (string_of body, None)))"
    using nn assms(1) o
    by (simp add: parseAbiString_def h sb Big32_def s3 AbiValueOverflow_def Let_def split: exec.splits)
  show ?thesis
  proof (cases "cap data < off + 32")
    case True
    then show ?thesis
      by (simp add: start w abi_start_def off_def [symmetric])
  next
    case False
    note inb = this
    show ?thesis
    proof (cases "2 ^ 63 \<le> ln")
      case True
      then have "63 < BitLen ln" by (simp add: BitLen_63)
      then show ?thesis
        using inb True
        by (simp add: start w sl abi_start_def off_def [symmetric] ln_def [symmetric])
    next
      case False
      then have l: "\<not> 63 < BitLen ln" by (simp add: BitLen_63)
      have st: "off + 32 < 2 ^ 63" using inb assms(2) by simp
      have b: "slice_expr data (Uint64 (off + 32)) (Uint64 (off + 32 + ln)) =
           (if off + 32 + ln \<le> cap data
            then Return (Slice (take ln (drop (off + 32) (array data)))
                               (drop (off + 32 + ln) (array data)))
            else Panic)"
        using nn assms(2) st False by (intro slice_expr_Uint64) simp_all
      have s4: "Uint64 (off + 32) + Uint64 ln = Uint64 (off + 32 + ln)"
        by (simp add: Uint64_def)
      show ?thesis
        using inb l False
        by (simp add: start w sl s4 b string_of_def abi_start_def off_def [symmetric]
            ln_def [symmetric])
    qed
  qed
qed

lemma big_endian_Nil: "big_endian [] = 0"
  by (simp add: big_endian_def)

lemma big_endian_Cons: "big_endian (b # bs) = unat b * 256 ^ length bs + big_endian bs"
  using big_endian_append [of "[b]" bs] by (simp add: big_endian_single)

lemma parseAbiString_inside:
  assumes "well_formed data" "cap data < 2 ^ 63"
  shows "parseAbiString data =
           Return (map (\<lambda>b. char_of (unat b))
                     (take (abi_length data) (drop (abi_start data) (bytes data))), None)"
proof -
  from assms(1) have l: "96 \<le> len data" and o: "abi_offset data < 2 ^ 63"
    and n: "abi_length data < 2 ^ 63" and s: "abi_start data \<le> len data"
    and e: "abi_start data + abi_length data \<le> len data"
    by (simp_all add: well_formed_def in_bounds_def)
  have w: "be_word (array data) (abi_offset data) = abi_length data"
    using s by (simp add: be_word_array abi_start_def abi_length_def)
  have b: "take (abi_length data) (drop (abi_start data) (array data))
             = take (abi_length data) (drop (abi_start data) (bytes data))"
    using e by (cases data) (simp_all add: len_def)
  have c: "\<not> cap data < abi_start data" "\<not> cap data < abi_start data + abi_length data"
    using s e len_le_cap [of data] by simp_all
  show ?thesis
    using n c by (simp add: parseAbiString_eval [OF l assms(2) o] w b)
qed


lemma hello_fields:
  "len (Slice hello_buf []) = 96" "cap (Slice hello_buf []) = 96"
  "abi_offset (Slice hello_buf []) = 32" "abi_length (Slice hello_buf []) = 5"
     apply (simp add: len_def hello_buf_def)
    apply (simp add: cap_def hello_buf_def)
   apply (simp add: abi_offset_def be_word_def hello_buf_def big_endian_append big_endian_zeros big_endian_Nil big_endian_Cons)
  apply (simp add: abi_length_def abi_start_def abi_offset_def be_word_def hello_buf_def big_endian_append big_endian_zeros big_endian_Nil big_endian_Cons)
  done

lemma far_fields:
  "len (Slice far_buf []) = 96" "cap (Slice far_buf []) = 96" "abi_offset (Slice far_buf []) = 96"
    apply (simp add: len_def far_buf_def)
   apply (simp add: cap_def far_buf_def)
  apply (simp add: abi_offset_def be_word_def far_buf_def big_endian_append big_endian_zeros big_endian_Nil big_endian_Cons)
  done

lemma huge_offset_fields:
  "len (Slice huge_offset_buf []) = 96" "abi_offset (Slice huge_offset_buf []) = 2 ^ 63"
   apply (simp add: len_def huge_offset_buf_def)
  apply (simp add: abi_offset_def be_word_def huge_offset_buf_def big_endian_append big_endian_zeros big_endian_Nil big_endian_Cons)
  done

lemma huge_length_fields:
  "len (Slice huge_length_buf []) = 96" "cap (Slice huge_length_buf []) = 96"
  "abi_offset (Slice huge_length_buf []) = 32" "abi_length (Slice huge_length_buf []) = 2 ^ 63"
     apply (simp add: len_def huge_length_buf_def)
    apply (simp add: cap_def huge_length_buf_def)
   apply (simp add: abi_offset_def be_word_def huge_length_buf_def big_endian_append big_endian_zeros big_endian_Nil big_endian_Cons)
  apply (simp add: abi_length_def abi_start_def abi_offset_def be_word_def huge_length_buf_def big_endian_append big_endian_zeros big_endian_Nil big_endian_Cons)
  done

lemma decimal_2_63: "decimal 9223372036854775808 = ''9223372036854775808''"
  by (simp add: decimal.simps digit_def)

lemma parseAbiString_length_overflow:
  assumes "96 \<le> len data" "cap data < 2 ^ 63" "abi_offset data < 2 ^ 63"
    "abi_start data \<le> len data" "2 ^ 63 \<le> abi_length data"
  shows "parseAbiString data = Return ('''', Some (AbiValueOverflow ''length'' (abi_length data)))"
proof -
  have w: "be_word (array data) (abi_offset data) = abi_length data"
    using assms(4) by (simp add: be_word_array abi_start_def abi_length_def)
  have c: "\<not> cap data < abi_start data"
    using assms(4) len_le_cap [of data] by simp
  show ?thesis
    using assms(5) c by (simp add: parseAbiString_eval [OF assms(1-3)] w)
qed

lemma parseAbiString_in_bounds:
  assumes "96 \<le> len data" "cap data < 2 ^ 63" "abi_offset data < 2 ^ 63"
    "abi_start data \<le> len data \<longrightarrow> abi_length data < 2 ^ 63" "in_bounds data"
  shows "parseAbiString data \<noteq> Panic"
proof -
  have "well_formed data" using assms by (simp add: well_formed_def in_bounds_def)
  then show ?thesis
    using assms(2) by (simp add: parseAbiString_inside)
qed

lemma parseAbiString_out_of_bounds:
  assumes "96 \<le> len data" "cap data < 2 ^ 63" "abi_offset data < 2 ^ 63"
    "abi_start data \<le> len data \<longrightarrow> abi_length data < 2 ^ 63"
    "cap data = len data" "\<not> in_bounds data"
  shows "parseAbiString data = Panic"
proof (cases "abi_start data \<le> len data")
  case False
  then show ?thesis
    using assms(5) by (simp add: parseAbiString_eval [OF assms(1-3)])
next
  case True
  have w: "be_word (array data) (abi_offset data) = abi_length data"
    using True by (simp add: be_word_array abi_start_def abi_length_def)
  from True assms(4,6) have "abi_length data < 2 ^ 63"
    "len data < abi_start data + abi_length data"
    by (simp_all add: in_bounds_def)
  then show ?thesis
    using True assms(5) by (simp add: parseAbiString_eval [OF assms(1-3)] w)
qed

lemma TokenNameAttempt_success:
  assumes "eth_CallContract ftm
             \<lparr>msg_From = replicate 20 0, msg_To = adr, msg_Data = solidityCallFunctionName\<rparr>
             None (node w) = (Inr data, n)"
  shows "fst (TokenNameAttempt ftm adr w) = parseAbiString data"
  using assms by (simp add: TokenNameAttempt_def CallContract_def)


section \<open>How the gas price loop runs\<close>

lemma GasPrice_loop_step:
  assumes "rpc_big ftm ''ftm_gasPrice'' [] (node w) = (r, n)"
  shows "GasPrice_loop ftm price try w =
     (case r of
        Inl err \<Rightarrow>
          ((price, Some err),
           \<lparr>node = n, trace = trace w @ [Called ''ftm_gasPrice'' [],
               Logged ErrorLevel ''current gas price could not be obtained'']\<rparr>)
      | Inr price1 \<Rightarrow>
          if price1 \<le> maxAcceptedGasPrice
          then ((price1, None), \<lparr>node = n, trace = trace w @ [Called ''ftm_gasPrice'' []]\<rparr>)
          else if try > 2
          then ((price1, Some GasPriceUnavailable),
                \<lparr>node = n, trace = trace w @ [Called ''ftm_gasPrice'' [],
                    Logged ErrorLevel ''can not get reasonable gas price from the backend server'']\<rparr>)
          else GasPrice_loop ftm price1 (try + 1)
                 \<lparr>node = n, trace = trace w @ [Called ''ftm_gasPrice'' [], Slept 100]\<rparr>)"
  by (subst GasPrice_loop.simps)
     (simp add: Call_big_def assms log_def Sleep_def GasPriceUnavailable_def split: sum.splits)

lemma GasPrice_loop_step_at:
  assumes "rpc_big ftm ''ftm_gasPrice'' [] nd = (r, n)"
  shows "GasPrice_loop ftm price try \<lparr>node = nd, trace = tr\<rparr> =
     (case r of
        Inl err \<Rightarrow>
          ((price, Some err),
           \<lparr>node = n, trace = tr @ [Called ''ftm_gasPrice'' [],
               Logged ErrorLevel ''current gas price could not be obtained'']\<rparr>)
      | Inr price1 \<Rightarrow>
          if price1 \<le> maxAcceptedGasPrice
          then ((price1, None), \<lparr>node = n, trace = tr @ [Called ''ftm_gasPrice'' []]\<rparr>)
          else if try > 2
          then ((price1, Some GasPriceUnavailable),
                \<lparr>node = n, trace = tr @ [Called ''ftm_gasPrice'' [],
                    Logged ErrorLevel ''can not get reasonable gas price from the backend server'']\<rparr>)
          else GasPrice_loop ftm price1 (try + 1)
                 \<lparr>node = n, trace = tr @ [Called ''ftm_gasPrice'' [], Slept 100]\<rparr>)"
  using GasPrice_loop_step [of ftm "\<lparr>node = nd, trace = tr\<rparr>" r n price "try"] assms
  by (cases r) simp_all

lemma gasPrice_reply_Suc:
  "gasPrice_reply ftm (Suc i) n = gasPrice_reply ftm i (snd (rpc_big ftm ''ftm_gasPrice'' [] n))"
  by (simp add: gasPrice_reply_def)

lemma GasPrice_loop_skip:
  assumes "unat try + k \<le> 3"
    and "\<forall>i<k. \<exists>p. gasPrice_reply ftm i (node w) = Inr p \<and> maxAcceptedGasPrice < p"
  shows "\<exists>p'. GasPrice_loop ftm price try w =
           GasPrice_loop ftm p' (try + of_nat k)
             \<lparr>node = node_after ftm k (node w),
              trace = trace w @ concat (replicate k [Called ''ftm_gasPrice'' [], Slept 100])\<rparr>
           \<and> (k = 0 \<longrightarrow> p' = price)
           \<and> (0 < k \<longrightarrow> gasPrice_reply ftm (k - 1) (node w) = Inr p')"
  using assms
proof (induction k arbitrary: price "try" w)
  case 0
  show ?case by (cases w) simp
next
  case (Suc k)
  from Suc.prems(2) obtain p where p: "gasPrice_reply ftm 0 (node w) = Inr p"
    "maxAcceptedGasPrice < p" by auto
  obtain n where n: "rpc_big ftm ''ftm_gasPrice'' [] (node w) = (Inr p, n)"
    using p(1) by (cases "rpc_big ftm ''ftm_gasPrice'' [] (node w)") (simp add: gasPrice_reply_def)
  define w1 where "w1 = \<lparr>node = n, trace = trace w @ [Called ''ftm_gasPrice'' [], Slept 100]\<rparr>"
  have small: "unat try \<le> 2" using Suc.prems(1) by simp
  then have t: "\<not> try > 2" by (simp add: word_less_nat_alt)
  have u: "unat (try + 1) = unat try + 1"
    using small by (simp add: unat_word_ariths)
  have step: "GasPrice_loop ftm price try w = GasPrice_loop ftm p (try + 1) w1"
    using p(2) t by (simp add: GasPrice_loop_step [OF n] w1_def)
  have a: "unat (try + 1) + k \<le> 3" using Suc.prems(1) u by simp
  have b: "\<forall>i<k. \<exists>q. gasPrice_reply ftm i (node w1) = Inr q \<and> maxAcceptedGasPrice < q"
  proof (intro allI impI)
    fix i assume "i < k"
    then have "Suc i < Suc k" by simp
    with Suc.prems(2) obtain q where "gasPrice_reply ftm (Suc i) (node w) = Inr q"
      "maxAcceptedGasPrice < q" by blast
    then show "\<exists>q. gasPrice_reply ftm i (node w1) = Inr q \<and> maxAcceptedGasPrice < q"
      by (simp add: gasPrice_reply_Suc n w1_def)
  qed
  from Suc.IH [OF a b, of p] obtain p' where
    ih: "GasPrice_loop ftm p (try + 1) w1 =
           GasPrice_loop ftm p' (try + 1 + of_nat k)
             \<lparr>node = node_after ftm k (node w1),
              trace = trace w1 @ concat (replicate k [Called ''ftm_gasPrice'' [], Slept 100])\<rparr>"
      "k = 0 \<longrightarrow> p' = p" "0 < k \<longrightarrow> gasPrice_reply ftm (k - 1) (node w1) = Inr p'"
    by blast
  have last: "gasPrice_reply ftm (Suc k - 1) (node w) = Inr p'"
  proof (cases k)
    case 0
    with ih(2) p(1) show ?thesis by simp
  next
    case (Suc j)
    with ih(3) show ?thesis by (simp add: gasPrice_reply_Suc n w1_def)
  qed
  show ?case
    using step ih(1) last
    by (intro exI [of _ p']) (simp add: w1_def n ac_simps)
qed

lemma GasPrice_start:
  "GasPrice ftm w =
     GasPrice_loop ftm 0 0 \<lparr>node = node w, trace = trace w @ [Logged DebugLevel ''checking current gas price'']\<rparr>"
  by (cases w) (simp add: GasPrice_def log_def)

lemma GasPrice_after_high:
  assumes "k \<le> 3"
    and "\<forall>i<k. \<exists>p. gasPrice_reply ftm i (node w) = Inr p \<and> maxAcceptedGasPrice < p"
  obtains p' n where
    "rpc_big ftm ''ftm_gasPrice'' [] (node_after ftm k (node w)) = (gasPrice_reply ftm k (node w), n)"
    "GasPrice ftm w =
       GasPrice_loop ftm p' (of_nat k)
         \<lparr>node = node_after ftm k (node w),
          trace = trace w @ Logged DebugLevel ''checking current gas price''
                    # concat (replicate k [Called ''ftm_gasPrice'' [], Slept 100])\<rparr>"
proof -
  define v where "v = \<lparr>node = node w, trace = trace w @ [Logged DebugLevel ''checking current gas price'']\<rparr>"
  have a: "unat (0 :: 8 word) + k \<le> 3" using assms(1) by simp
  have b: "\<forall>i<k. \<exists>p. gasPrice_reply ftm i (node v) = Inr p \<and> maxAcceptedGasPrice < p"
    using assms(2) by (simp add: v_def)
  from GasPrice_loop_skip [OF a b, of 0] obtain p' where
    "GasPrice_loop ftm 0 0 v =
       GasPrice_loop ftm p' (0 + of_nat k)
         \<lparr>node = node_after ftm k (node v),
          trace = trace v @ concat (replicate k [Called ''ftm_gasPrice'' [], Slept 100])\<rparr>"
    by blast
  then have "GasPrice ftm w =
       GasPrice_loop ftm p' (of_nat k)
         \<lparr>node = node_after ftm k (node w),
          trace = trace w @ Logged DebugLevel ''checking current gas price''
                    # concat (replicate k [Called ''ftm_gasPrice'' [], Slept 100])\<rparr>"
    by (simp add: GasPrice_start v_def)
  moreover obtain n where
    "rpc_big ftm ''ftm_gasPrice'' [] (node_after ftm k (node w)) = (gasPrice_reply ftm k (node w), n)"
    by (cases "rpc_big ftm ''ftm_gasPrice'' [] (node_after ftm k (node w))")
       (simp add: gasPrice_reply_def)
  ultimately show ?thesis using that by blast
qed

lemma GasPrice_transport_failure:
  assumes "k \<le> 3"
    and "\<forall>i<k. \<exists>p. gasPrice_reply ftm i (node w) = Inr p \<and> maxAcceptedGasPrice < p"
    and "gasPrice_reply ftm k (node w) = Inl e"
  shows "snd (fst (GasPrice ftm w)) = Some e
     \<and> trace (snd (GasPrice ftm w)) =
         trace w @ Logged DebugLevel ''checking current gas price''
           # concat (replicate k [Called ''ftm_gasPrice'' [], Slept 100])
           @ [Called ''ftm_gasPrice'' [],
              Logged ErrorLevel ''current gas price could not be obtained'']"
proof -
  from GasPrice_after_high [OF assms(1,2)] obtain p' n where
    r: "rpc_big ftm ''ftm_gasPrice'' [] (node_after ftm k (node w)) = (gasPrice_reply ftm k (node w), n)"
    and g: "GasPrice ftm w =
       GasPrice_loop ftm p' (of_nat k)
         \<lparr>node = node_after ftm k (node w),
          trace = trace w @ Logged DebugLevel ''checking current gas price''
                    # concat (replicate k [Called ''ftm_gasPrice'' [], Slept 100])\<rparr>"
    by blast
  show ?thesis
    unfolding g using r assms(3)
    by (subst GasPrice_loop_step, simp, simp)+
qed

lemma GasPrice_exhausted:
  assumes "\<forall>i<4. \<exists>p. gasPrice_reply ftm i (node w) = Inr p \<and> maxAcceptedGasPrice < p"
  shows "snd (fst (GasPrice ftm w)) = Some GasPriceUnavailable
     \<and> trace (snd (GasPrice ftm w)) =
         trace w @ [Logged DebugLevel ''checking current gas price'',
           Called ''ftm_gasPrice'' [], Slept 100, Called ''ftm_gasPrice'' [], Slept 100,
           Called ''ftm_gasPrice'' [], Slept 100, Called ''ftm_gasPrice'' [],
           Logged ErrorLevel ''can not get reasonable gas price from the backend server'']"
proof -
  have three: "(3::nat) \<le> 3" by simp
  have b: "\<forall>i<3. \<exists>p. gasPrice_reply ftm i (node w) = Inr p \<and> maxAcceptedGasPrice < p"
    using assms by auto
  have "(3::nat) < 4" by simp
  with assms obtain p where p: "gasPrice_reply ftm 3 (node w) = Inr p" "maxAcceptedGasPrice < p"
    by blast
  from GasPrice_after_high [OF three b] obtain p' n where
    r: "rpc_big ftm ''ftm_gasPrice'' [] (node_after ftm 3 (node w)) = (gasPrice_reply ftm 3 (node w), n)"
    and g: "GasPrice ftm w =
       GasPrice_loop ftm p' (of_nat 3)
         \<lparr>node = node_after ftm 3 (node w),
          trace = trace w @ Logged DebugLevel ''checking current gas price''
                    # concat (replicate 3 [Called ''ftm_gasPrice'' [], Slept 100])\<rparr>"
    by blast
  have rep: "replicate 3 [Called ''ftm_gasPrice'' [], Slept 100]
      = [[Called ''ftm_gasPrice'' [], Slept 100], [Called ''ftm_gasPrice'' [], Slept 100],
         [Called ''ftm_gasPrice'' [], Slept 100]]"
    by (simp add: eval_nat_numeral)
  have gl: "GasPrice_loop ftm p' 3
         \<lparr>node = node_after ftm 3 (node w),
          trace = trace w @ Logged DebugLevel ''checking current gas price''
                    # concat (replicate 3 [Called ''ftm_gasPrice'' [], Slept 100])\<rparr>
       = ((p, Some GasPriceUnavailable),
          \<lparr>node = n, trace = (trace w @ Logged DebugLevel ''checking current gas price''
                    # concat (replicate 3 [Called ''ftm_gasPrice'' [], Slept 100]))
               @ [Called ''ftm_gasPrice'' [],
                  Logged ErrorLevel ''can not get reasonable gas price from the backend server'']\<rparr>)"
    using p by (subst GasPrice_loop_step [where r = "Inr p" and n = n]) (simp_all add: r [unfolded p(1)] )
  show ?thesis
    unfolding g using gl by (simp add: rep)
qed

lemma issued_append: "trace w' = trace w @ evs \<Longrightarrow> issued w w' = evs"
  by (simp add: issued_def)

lemma always_high_reply: "gasPrice_reply always_high k n = Inr 2000000000000000000"
  by (simp add: gasPrice_reply_def always_high_def)

lemma high_then_down_replies:
  "gasPrice_reply high_then_down 0 0 = Inr 2000000000000000000"
  "gasPrice_reply high_then_down (Suc 0) 0 = Inr 2000000000000000000"
  "gasPrice_reply high_then_down 2 0 = Inl (RpcError ''connection refused'')"
  by (simp_all add: gasPrice_reply_def high_then_down_def eval_nat_numeral)

section \<open>How the gas estimate runs\<close>

lemma Contains_sublist: "Contains s substr \<longleftrightarrow> sublist substr s"
  by (induction s) (auto simp: sublist_Cons_right)

lemma GasEstimateWithBlock_run:
  assumes "rpc_uint64 ftm ''ftm_estimateGas'' [Trx trx, BlockTypeLatest] nd = (r, n)"
  shows "GasEstimateWithBlock ftm trx \<lparr>node = nd, trace = tr\<rparr> =
     (case r of
        Inl err \<Rightarrow>
          ((None, Some err),
           \<lparr>node = n, trace = tr @
              [Logged DebugLevel ''calling for gas amount estimation with block details'',
               fallback_call trx,
               Logged ErrorLevel (''can not estimate gas; '' @ Error err)]\<rparr>)
      | Inr val \<Rightarrow>
          ((Some val, None),
           \<lparr>node = n, trace = tr @
              [Logged DebugLevel ''calling for gas amount estimation with block details'',
               fallback_call trx]\<rparr>))"
  using assms
  by (cases r) (simp_all add: GasEstimateWithBlock_def Call_uint64_def log_def fallback_call_def)

lemma GasEstimate_run:
  assumes "rpc_uint64 ftm ''ftm_estimateGas'' [Trx trx] (node w) = (r, n)"
  shows "GasEstimate ftm trx w =
     (case r of
        Inl err \<Rightarrow>
          if Contains (Error err) ''missing value''
          then GasEstimateWithBlock ftm trx
                 \<lparr>node = n, trace = trace w @
                    [Logged DebugLevel ''calling for gas amount estimation'', primary_call trx]\<rparr>
          else ((None, Some err),
                \<lparr>node = n, trace = trace w @
                   [Logged DebugLevel ''calling for gas amount estimation'', primary_call trx,
                    Logged ErrorLevel (''can not estimate gas; '' @ Error err)]\<rparr>)
      | Inr val \<Rightarrow>
          ((Some val, None),
           \<lparr>node = n, trace = trace w @
              [Logged DebugLevel ''calling for gas amount estimation'', primary_call trx]\<rparr>))"
  using assms
  by (cases r) (simp_all add: GasEstimate_def Call_uint64_def log_def primary_call_def)

lemma GasEstimate_primary_ok:
  assumes "rpc_uint64 ftm ''ftm_estimateGas'' [Trx trx] (node w) = (Inr val, n)"
  shows "fst (GasEstimate ftm trx w) = (Some val, None)"
    and "issued w (snd (GasEstimate ftm trx w)) =
           [Logged DebugLevel ''calling for gas amount estimation'', primary_call trx]"
  by (simp_all add: GasEstimate_run [OF assms] issued_def)

lemma GasEstimate_unrelated:
  assumes "rpc_uint64 ftm ''ftm_estimateGas'' [Trx trx] (node w) = (Inl err, n)"
    and "\<not> Contains (Error err) ''missing value''"
  shows "fst (GasEstimate ftm trx w) = (None, Some err)"
    and "issued w (snd (GasEstimate ftm trx w)) =
           [Logged DebugLevel ''calling for gas amount estimation'', primary_call trx,
            Logged ErrorLevel (''can not estimate gas; '' @ Error err)]"
  using assms(2) by (simp_all add: GasEstimate_run [OF assms(1)] issued_def)

lemma GasEstimate_fallback_ok:
  assumes "rpc_uint64 ftm ''ftm_estimateGas'' [Trx trx] (node w) = (Inl err, n)"
    and "Contains (Error err) ''missing value''"
    and "rpc_uint64 ftm ''ftm_estimateGas'' [Trx trx, BlockTypeLatest] n = (Inr val, n')"
  shows "fst (GasEstimate ftm trx w) = (Some val, None)"
    and "issued w (snd (GasEstimate ftm trx w)) =
           [Logged DebugLevel ''calling for gas amount estimation'', primary_call trx,
            Logged DebugLevel ''calling for gas amount estimation with block details'',
            fallback_call trx]"
  using assms(2)
  by (simp_all add: GasEstimate_run [OF assms(1)] GasEstimateWithBlock_run [OF assms(3)] issued_def)

lemma GasEstimate_fallback_fails:
  assumes "rpc_uint64 ftm ''ftm_estimateGas'' [Trx trx] (node w) = (Inl err, n)"
    and "Contains (Error err) ''missing value''"
    and "rpc_uint64 ftm ''ftm_estimateGas'' [Trx trx, BlockTypeLatest] n = (Inl err', n')"
  shows "fst (GasEstimate ftm trx w) = (None, Some err')"
    and "issued w (snd (GasEstimate ftm trx w)) =
           [Logged DebugLevel ''calling for gas amount estimation'', primary_call trx,
            Logged DebugLevel ''calling for gas amount estimation with block details'',
            fallback_call trx,
            Logged ErrorLevel (''can not estimate gas; '' @ Error err')]"
  using assms(2)
  by (simp_all add: GasEstimate_run [OF assms(1)] GasEstimateWithBlock_run [OF assms(3)] issued_def)

lemma fallback_issued_iff:
  "fallback_call trx \<in> set (issued w (snd (GasEstimate ftm trx w)))
     \<longleftrightarrow> (\<exists>err. fst (rpc_uint64 ftm ''ftm_estimateGas'' [Trx trx] (node w)) = Inl err
                \<and> Contains (Error err) ''missing value'')"
proof -
  obtain r n where rn: "rpc_uint64 ftm ''ftm_estimateGas'' [Trx trx] (node w) = (r, n)"
    by (cases "rpc_uint64 ftm ''ftm_estimateGas'' [Trx trx] (node w)")
  show ?thesis
  proof (cases r)
    case (Inr val)
    with rn have "rpc_uint64 ftm ''ftm_estimateGas'' [Trx trx] (node w) = (Inr val, n)" by simp
    from GasEstimate_primary_ok(2) [OF this] show ?thesis
      using rn Inr by (simp add: fallback_call_def primary_call_def)
  next
    case (Inl err)
    with rn have p: "rpc_uint64 ftm ''ftm_estimateGas'' [Trx trx] (node w) = (Inl err, n)"
      by simp
    show ?thesis
    proof (cases "Contains (Error err) ''missing value''")
      case False
      from GasEstimate_unrelated(2) [OF p False] show ?thesis
        using p False by (simp add: fallback_call_def primary_call_def)
    next
      case True
      obtain r' n' where
        f: "rpc_uint64 ftm ''ftm_estimateGas'' [Trx trx, BlockTypeLatest] n = (r', n')"
        by (cases "rpc_uint64 ftm ''ftm_estimateGas'' [Trx trx, BlockTypeLatest] n")
      have "fallback_call trx \<in> set (issued w (snd (GasEstimate ftm trx w)))"
      proof (cases r')
        case (Inl e)
        with f have "rpc_uint64 ftm ''ftm_estimateGas'' [Trx trx, BlockTypeLatest] n = (Inl e, n')"
          by simp
        from GasEstimate_fallback_fails(2) [OF p True this] show ?thesis by simp
      next
        case (Inr v)
        with f have "rpc_uint64 ftm ''ftm_estimateGas'' [Trx trx, BlockTypeLatest] n = (Inr v, n')"
          by simp
        from GasEstimate_fallback_ok(2) [OF p True this] show ?thesis by simp
      qed
      then show ?thesis using p True by simp
    qed
  qed
qed

lemma missing_value_message: "Contains ''missing value for required argument 1'' ''missing value''"
  by simp

section \<open>Short buffers\<close>

text \<open>
  C3. A buffer shorter than 96 bytes, \<^verbatim>\<open>nil\<close> and the empty buffer included, is refused with
  the malformed-payload error, which reports the number of bytes received. The call returns
  (it does not panic, so no index outside the buffer is read), and its result is a function
  of the length alone: no byte of the buffer is read.
\<close>

theorem parseAbiString_short:
  "len data < 96 \<Longrightarrow> parseAbiString data = Return ('''', Some (MalformedAbiPayload (len data)))"
  by (simp add: parseAbiString_def MalformedAbiPayload_def)

theorem parseAbiString_short_witness:
  "len nil < 96 \<and> len (Slice [1, 2, 3] []) < 96
   \<and> parseAbiString nil
       = Return ('''', Some (Errorf ''abi encoded string expected, only 0 bytes received''))
   \<and> parseAbiString (Slice [1, 2, 3] [])
       = Return ('''', Some (Errorf ''abi encoded string expected, only 3 bytes received''))"
  using parseAbiString_short [of nil] parseAbiString_short [of "Slice [1, 2, 3] []"]
  by (simp add: len_def MalformedAbiPayload_def decimal.simps digit_def)

section \<open>Well-formed buffers\<close>

text \<open>
  C4. For a well-formed buffer the decoder returns, with no error, the text made of the
  \<open>abi_length\<close> bytes from \<open>abi_start\<close> on, where the offset is the big-endian value of
  bytes 0 to 31, the start is the offset plus 32, and the length is the big-endian value of
  the 32 bytes before the start. The capacity of a Go slice fits \<^verbatim>\<open>int\<close>. The buffer of
  offset \<open>0x20\<close>, length 5 and the padded text \<open>hello\<close> decodes to \<open>hello\<close>.
\<close>

theorem parseAbiString_well_formed:
  assumes "well_formed data" "cap data < 2 ^ 63"
  shows "parseAbiString data =
           Return (map (\<lambda>b. char_of (unat b))
                     (take (abi_length data) (drop (abi_start data) (bytes data))), None)"
  using assms by (rule parseAbiString_inside)

theorem parseAbiString_well_formed_witness:
  "well_formed (Slice hello_buf []) \<and> cap (Slice hello_buf []) < 2 ^ 63
   \<and> parseAbiString (Slice hello_buf []) = Return (''hello'', None)"
proof -
  have w: "well_formed (Slice hello_buf [])"
    by (simp add: well_formed_def in_bounds_def abi_start_def hello_fields)
  have c: "cap (Slice hello_buf []) < 2 ^ 63"
    by (simp add: hello_fields)
  have "map (\<lambda>b. char_of (unat b)) (take 5 (drop 64 hello_buf)) = ''hello''"
    by code_simp
  with parseAbiString_well_formed [OF w c] w c show ?thesis
    by (simp add: hello_fields abi_start_def)
qed

section \<open>Fields that do not fit 63 bits\<close>

text \<open>
  C5. A buffer of 96 bytes or more whose offset field is above \<open>2 ^ 63 - 1\<close> is refused with
  the overflow error of the offset; one whose offset fits and lies in the buffer, and whose
  length field is above \<open>2 ^ 63 - 1\<close>, is refused with the overflow error of the length. The
  error reports the whole value: nothing is wrapped or cut.
\<close>

theorem parseAbiString_overflow:
  "(96 \<le> len data \<and> 2 ^ 63 \<le> abi_offset data
      \<longrightarrow> parseAbiString data
            = Return ('''', Some (AbiValueOverflow ''offset'' (abi_offset data))))
   \<and> (96 \<le> len data \<and> cap data < 2 ^ 63 \<and> abi_offset data < 2 ^ 63
        \<and> abi_start data \<le> len data \<and> 2 ^ 63 \<le> abi_length data
      \<longrightarrow> parseAbiString data
            = Return ('''', Some (AbiValueOverflow ''length'' (abi_length data))))"
  using parseAbiString_offset_overflow [of data] parseAbiString_length_overflow [of data]
  by blast

theorem parseAbiString_overflow_witness:
  "96 \<le> len (Slice huge_offset_buf []) \<and> 2 ^ 63 \<le> abi_offset (Slice huge_offset_buf [])
   \<and> parseAbiString (Slice huge_offset_buf [])
       = Return ('''', Some (Errorf ''string offset larger than int64: 9223372036854775808''))
   \<and> 96 \<le> len (Slice huge_length_buf []) \<and> cap (Slice huge_length_buf []) < 2 ^ 63
   \<and> abi_offset (Slice huge_length_buf []) < 2 ^ 63
   \<and> abi_start (Slice huge_length_buf []) \<le> len (Slice huge_length_buf [])
   \<and> 2 ^ 63 \<le> abi_length (Slice huge_length_buf [])
   \<and> parseAbiString (Slice huge_length_buf [])
       = Return ('''', Some (Errorf ''string length larger than int64: 9223372036854775808''))"
  using parseAbiString_overflow [of "Slice huge_offset_buf []"]
    parseAbiString_overflow [of "Slice huge_length_buf []"]
  by (simp add: huge_offset_fields huge_length_fields abi_start_def AbiValueOverflow_def
      decimal_2_63)


section \<open>Slices that are not checked against the length\<close>

text \<open>
  C2. The two slice expressions behind the offset check are not guarded by the length of the
  buffer. For a buffer of 96 bytes or more whose fields pass the 63-bit checks, the decoder
  returns whenever the length word and the string lie in the buffer; and when the buffer
  fills its array (its capacity is its length, as for a freshly decoded reply), it panics
  whenever they do not. The buffer of 96 bytes with offset field 96 is such an input, and
  \<^verbatim>\<open>TokenNameAttempt\<close> hands the bytes of a successful reply to the decoder as they are.
\<close>

theorem parseAbiString_unchecked_slices:
  "(96 \<le> len data \<and> cap data < 2 ^ 63 \<and> abi_offset data < 2 ^ 63
      \<and> (abi_start data \<le> len data \<longrightarrow> abi_length data < 2 ^ 63)
     \<longrightarrow> (in_bounds data \<longrightarrow> parseAbiString data \<noteq> Panic)
         \<and> (cap data = len data \<and> \<not> in_bounds data \<longrightarrow> parseAbiString data = Panic))
   \<and> len (Slice far_buf []) = 96 \<and> abi_offset (Slice far_buf []) = 96
   \<and> parseAbiString (Slice far_buf []) = Panic
   \<and> (eth_CallContract ftm
         \<lparr>msg_From = replicate 20 0, msg_To = adr, msg_Data = solidityCallFunctionName\<rparr>
         None (node w) = (Inr data, n)
      \<longrightarrow> fst (TokenNameAttempt ftm adr w) = parseAbiString data)"
proof -
  have "parseAbiString (Slice far_buf []) = Panic"
    by (rule parseAbiString_out_of_bounds)
       (simp_all add: far_fields in_bounds_def abi_start_def)
  then show ?thesis
    using parseAbiString_in_bounds [of data] parseAbiString_out_of_bounds [of data]
      TokenNameAttempt_success [of ftm adr w data n]
    by (simp add: far_fields)
qed

theorem parseAbiString_unchecked_slices_witness:
  "96 \<le> len (Slice far_buf []) \<and> cap (Slice far_buf []) < 2 ^ 63
   \<and> abi_offset (Slice far_buf []) < 2 ^ 63
   \<and> \<not> abi_start (Slice far_buf []) \<le> len (Slice far_buf [])
   \<and> cap (Slice far_buf []) = len (Slice far_buf []) \<and> \<not> in_bounds (Slice far_buf [])
   \<and> parseAbiString (Slice far_buf []) = Panic
   \<and> in_bounds (Slice hello_buf []) \<and> parseAbiString (Slice hello_buf []) \<noteq> Panic
   \<and> eth_CallContract always_high
        \<lparr>msg_From = replicate 20 0, msg_To = None, msg_Data = solidityCallFunctionName\<rparr>
        None (node w0) = (Inr (Slice far_buf []), 1)
   \<and> fst (TokenNameAttempt always_high None w0) = Panic"
  using parseAbiString_unchecked_slices [of "Slice far_buf []" always_high None w0 1]
    parseAbiString_unchecked_slices [of "Slice hello_buf []" always_high None w0 1]
  by (simp add: far_fields hello_fields in_bounds_def abi_start_def always_high_def w0_def)

section \<open>The gas price: exhausted attempts\<close>

text \<open>
  C1, as stated: against a transport whose every reply is a price above the ceiling,
  \<^verbatim>\<open>GasPrice\<close> issues three requests with two sleeps between them, and fails. It does not:
  against such a transport the trace holds four requests and three sleeps.
\<close>

theorem GasPrice_three_attempts_counterexample:
  "gasPrice_reply always_high 0 (node w0) = Inr 2000000000000000000
   \<and> gasPrice_reply always_high 1 (node w0) = Inr 2000000000000000000
   \<and> gasPrice_reply always_high 2 (node w0) = Inr 2000000000000000000
   \<and> gasPrice_reply always_high 3 (node w0) = Inr 2000000000000000000
   \<and> maxAcceptedGasPrice < 2000000000000000000
   \<and> snd (fst (GasPrice always_high w0)) = Some GasPriceUnavailable
   \<and> attempts (issued w0 (snd (GasPrice always_high w0))) = 4
   \<and> waits (issued w0 (snd (GasPrice always_high w0))) = 3
   \<and> \<not> (attempts (issued w0 (snd (GasPrice always_high w0))) = 3
          \<and> waits (issued w0 (snd (GasPrice always_high w0))) = 2)"
  by code_simp


text \<open>
  C1, amended: against a transport whose every reply is a price above the ceiling,
  \<^verbatim>\<open>GasPrice\<close> issues exactly four requests (the first attempt and three retries), sleeps
  100 ms after each of the first three, and then fails with the error
  \<open>gas price not available, please try again later\<close>. The counter \<^verbatim>\<open>try\<close> is compared
  with 2 before it is incremented, so the fourth attempt is the one that gives up.
\<close>

theorem GasPrice_exhausted_four_attempts:
  assumes "\<forall>k. \<exists>p. gasPrice_reply ftm k (node w) = Inr p \<and> maxAcceptedGasPrice < p"
  shows "snd (fst (GasPrice ftm w)) = Some GasPriceUnavailable
     \<and> Error GasPriceUnavailable = ''gas price not available, please try again later''
     \<and> issued w (snd (GasPrice ftm w)) =
         [Logged DebugLevel ''checking current gas price'',
          Called ''ftm_gasPrice'' [], Slept 100, Called ''ftm_gasPrice'' [], Slept 100,
          Called ''ftm_gasPrice'' [], Slept 100, Called ''ftm_gasPrice'' [],
          Logged ErrorLevel ''can not get reasonable gas price from the backend server'']
     \<and> attempts (issued w (snd (GasPrice ftm w))) = 4
     \<and> waits (issued w (snd (GasPrice ftm w))) = 3"
proof -
  from assms have "\<forall>i<4. \<exists>p. gasPrice_reply ftm i (node w) = Inr p \<and> maxAcceptedGasPrice < p"
    by simp
  from GasPrice_exhausted [OF this] show ?thesis
    by (simp add: issued_def attempts_def waits_def GasPriceUnavailable_def)
qed

theorem GasPrice_exhausted_four_attempts_witness:
  "(\<forall>k. \<exists>p. gasPrice_reply always_high k (node w0) = Inr p \<and> maxAcceptedGasPrice < p)
   \<and> snd (fst (GasPrice always_high w0)) = Some GasPriceUnavailable
   \<and> attempts (issued w0 (snd (GasPrice always_high w0))) = 4
   \<and> waits (issued w0 (snd (GasPrice always_high w0))) = 3"
proof -
  have h: "\<forall>k. \<exists>p. gasPrice_reply always_high k (node w0) = Inr p \<and> maxAcceptedGasPrice < p"
    by (simp add: always_high_reply maxAcceptedGasPrice_def)
  from GasPrice_exhausted_four_attempts [OF h] h show ?thesis by blast
qed

section \<open>The gas price: transport failures\<close>

text \<open>
  C6. When the request of attempt \<open>k + 1\<close> fails in the transport (the \<open>k\<close> attempts before it
  having returned prices above the ceiling, so that the attempt is made at all: \<open>k \<le> 3\<close>),
  \<^verbatim>\<open>GasPrice\<close> returns that very error. The failing request is the last one: behind it the
  trace holds the log line only, no request and no sleep.
\<close>

theorem GasPrice_transport_failure_not_retried:
  assumes "k \<le> 3"
    and "\<forall>i<k. \<exists>p. gasPrice_reply ftm i (node w) = Inr p \<and> maxAcceptedGasPrice < p"
    and "gasPrice_reply ftm k (node w) = Inl e"
  shows "snd (fst (GasPrice ftm w)) = Some e
     \<and> issued w (snd (GasPrice ftm w)) =
         Logged DebugLevel ''checking current gas price''
           # concat (replicate k [Called ''ftm_gasPrice'' [], Slept 100])
           @ [Called ''ftm_gasPrice'' [],
              Logged ErrorLevel ''current gas price could not be obtained'']"
  using GasPrice_transport_failure [OF assms] by (simp add: issued_def)

theorem GasPrice_transport_failure_not_retried_witness:
  "(2::nat) \<le> 3
   \<and> gasPrice_reply high_then_down 0 (node w0) = Inr 2000000000000000000
   \<and> gasPrice_reply high_then_down 1 (node w0) = Inr 2000000000000000000
   \<and> maxAcceptedGasPrice < 2000000000000000000
   \<and> gasPrice_reply high_then_down 2 (node w0) = Inl (RpcError ''connection refused'')
   \<and> snd (fst (GasPrice high_then_down w0)) = Some (RpcError ''connection refused'')
   \<and> issued w0 (snd (GasPrice high_then_down w0)) =
        [Logged DebugLevel ''checking current gas price'',
         Called ''ftm_gasPrice'' [], Slept 100, Called ''ftm_gasPrice'' [], Slept 100,
         Called ''ftm_gasPrice'' [],
         Logged ErrorLevel ''current gas price could not be obtained'']"
proof -
  have a: "(2::nat) \<le> 3" by simp
  have b: "\<forall>i<2. \<exists>p. gasPrice_reply high_then_down i (node w0) = Inr p \<and> maxAcceptedGasPrice < p"
  proof (intro allI impI)
    fix i :: nat assume "i < 2"
    then have "i = 0 \<or> i = 1" by auto
    then show "\<exists>p. gasPrice_reply high_then_down i (node w0) = Inr p \<and> maxAcceptedGasPrice < p"
      by (auto simp: high_then_down_replies w0_def maxAcceptedGasPrice_def)
  qed
  have c: "gasPrice_reply high_then_down 2 (node w0) = Inl (RpcError ''connection refused'')"
    by (simp add: high_then_down_replies w0_def)
  from GasPrice_transport_failure_not_retried [OF a b c] c show ?thesis
    by (simp add: eval_nat_numeral high_then_down_replies w0_def maxAcceptedGasPrice_def)
qed

section \<open>The gas price: the ceiling\<close>




section \<open>The gas price: success on the second attempt\<close>

text \<open>
  C8. When the first reply is a price above the ceiling and the second one a price at or
  below it, \<^verbatim>\<open>GasPrice\<close> returns the second price with no error, after two requests and
  one sleep: there is no third request.
\<close>

theorem GasPrice_second_attempt:
  assumes "gasPrice_reply ftm 0 (node w) = Inr p1" "maxAcceptedGasPrice < p1"
    and "gasPrice_reply ftm 1 (node w) = Inr p2" "p2 \<le> maxAcceptedGasPrice"
  shows "fst (GasPrice ftm w) = (p2, None)
     \<and> issued w (snd (GasPrice ftm w)) =
         [Logged DebugLevel ''checking current gas price'',
          Called ''ftm_gasPrice'' [], Slept 100, Called ''ftm_gasPrice'' []]
     \<and> attempts (issued w (snd (GasPrice ftm w))) = 2"
proof -
  have one: "(1::nat) \<le> 3" by simp
  have b: "\<forall>i<1. \<exists>p. gasPrice_reply ftm i (node w) = Inr p \<and> maxAcceptedGasPrice < p"
    using assms(1,2) by simp
  from GasPrice_after_high [OF one b] obtain p' n where
    r: "rpc_big ftm ''ftm_gasPrice'' [] (node_after ftm 1 (node w)) = (gasPrice_reply ftm 1 (node w), n)"
    and g: "GasPrice ftm w =
       GasPrice_loop ftm p' (of_nat 1)
         \<lparr>node = node_after ftm 1 (node w),
          trace = trace w @ Logged DebugLevel ''checking current gas price''
                    # concat (replicate 1 [Called ''ftm_gasPrice'' [], Slept 100])\<rparr>"
    by blast
  have "GasPrice ftm w = ((p2, None),
      \<lparr>node = n, trace = trace w @ [Logged DebugLevel ''checking current gas price'',
          Called ''ftm_gasPrice'' [], Slept 100, Called ''ftm_gasPrice'' []]\<rparr>)"
    unfolding g GasPrice_loop_step_at [OF r [unfolded assms(3)]] using assms(4) by simp
  then show ?thesis
    by (simp add: issued_def attempts_def)
qed

theorem GasPrice_second_attempt_witness:
  "gasPrice_reply high_then_ok 0 (node w0) = Inr 2000000000000000000
   \<and> maxAcceptedGasPrice < 2000000000000000000
   \<and> gasPrice_reply high_then_ok 1 (node w0) = Inr 5 \<and> 5 \<le> maxAcceptedGasPrice
   \<and> fst (GasPrice high_then_ok w0) = (5, None)
   \<and> attempts (issued w0 (snd (GasPrice high_then_ok w0))) = 2"
proof -
  have a: "gasPrice_reply high_then_ok 0 (node w0) = Inr 2000000000000000000"
    by (simp add: gasPrice_reply_def high_then_ok_def w0_def)
  have b: "maxAcceptedGasPrice < 2000000000000000000"
    by (simp add: maxAcceptedGasPrice_def)
  have c: "gasPrice_reply high_then_ok 1 (node w0) = Inr 5"
    by (simp add: gasPrice_reply_def high_then_ok_def w0_def)
  have d: "5 \<le> maxAcceptedGasPrice"
    by (simp add: maxAcceptedGasPrice_def)
  from GasPrice_second_attempt [OF a b c d] a b c d show ?thesis by blast
qed

section \<open>The gas estimate: the fallback\<close>

text \<open>
  C9. \<^verbatim>\<open>GasEstimate\<close> issues the request with the appended latest-block parameter if and
  only if the primary request fails with an error whose message contains
  \<open>missing value\<close>. When that second request succeeds, its estimate is returned with no
  error: the failure of the primary request is neither returned nor logged as a failure.
\<close>

theorem GasEstimate_fallback:
  "(fallback_call trx \<in> set (issued w (snd (GasEstimate ftm trx w)))
      \<longleftrightarrow> (\<exists>err. fst (rpc_uint64 ftm ''ftm_estimateGas'' [Trx trx] (node w)) = Inl err
                 \<and> Contains (Error err) ''missing value''))
   \<and> (rpc_uint64 ftm ''ftm_estimateGas'' [Trx trx] (node w) = (Inl err, n)
        \<and> Contains (Error err) ''missing value''
        \<and> rpc_uint64 ftm ''ftm_estimateGas'' [Trx trx, BlockTypeLatest] n = (Inr val, n')
      \<longrightarrow> fst (GasEstimate ftm trx w) = (Some val, None)
          \<and> issued w (snd (GasEstimate ftm trx w)) =
              [Logged DebugLevel ''calling for gas amount estimation'', primary_call trx,
               Logged DebugLevel ''calling for gas amount estimation with block details'',
               fallback_call trx])"
  using fallback_issued_iff [of trx w ftm] GasEstimate_fallback_ok [of ftm trx w err n val n']
  by blast

theorem GasEstimate_fallback_witness:
  "rpc_uint64 high_then_ok ''ftm_estimateGas'' [Trx None] (node w0)
     = (Inl (RpcError ''missing value for required argument 1''), 1)
   \<and> Contains (Error (RpcError ''missing value for required argument 1'')) ''missing value''
   \<and> rpc_uint64 high_then_ok ''ftm_estimateGas'' [Trx None, BlockTypeLatest] 1 = (Inr 21000, 2)
   \<and> fallback_call None \<in> set (issued w0 (snd (GasEstimate high_then_ok None w0)))
   \<and> fst (GasEstimate high_then_ok None w0) = (Some 21000, None)
   \<and> fallback_call None \<notin> set (issued w0 (snd (GasEstimate unrelated_failure None w0)))"
proof -
  have a: "rpc_uint64 high_then_ok ''ftm_estimateGas'' [Trx None] (node w0)
             = (Inl (RpcError ''missing value for required argument 1''), 1)"
    by (simp add: high_then_ok_def w0_def)
  have b: "Contains (Error (RpcError ''missing value for required argument 1'')) ''missing value''"
    by simp
  have c: "rpc_uint64 high_then_ok ''ftm_estimateGas'' [Trx None, BlockTypeLatest] 1
             = (Inr 21000, 2)"
    by (simp add: high_then_ok_def)
  have a': "fst (rpc_uint64 high_then_ok ''ftm_estimateGas'' [Trx None] (node w0))
             = Inl (RpcError ''missing value for required argument 1'')"
    using a by simp
  have d: "\<not> (\<exists>err. fst (rpc_uint64 unrelated_failure ''ftm_estimateGas'' [Trx None] (node w0))
                       = Inl err \<and> Contains (Error err) ''missing value'')"
    by (simp add: unrelated_failure_def)
  from GasEstimate_fallback [of None w0 high_then_ok
      "RpcError ''missing value for required argument 1''" 1 21000 2]
    GasEstimate_fallback [of None w0 unrelated_failure]
    a b c d a'
  show ?thesis by blast
qed

section \<open>The gas estimate: failures\<close>

text \<open>
  C10. When the primary request fails with an error whose message does not contain
  \<open>missing value\<close>, \<^verbatim>\<open>GasEstimate\<close> returns that error as it is and issues no second
  request. When the second request is issued and fails, its own error is returned as it is.
  Neither path repeats a request: one request in the first case, two in the second.
\<close>

theorem GasEstimate_failures:
  "(rpc_uint64 ftm ''ftm_estimateGas'' [Trx trx] (node w) = (Inl err, n)
      \<and> \<not> Contains (Error err) ''missing value''
     \<longrightarrow> fst (GasEstimate ftm trx w) = (None, Some err)
         \<and> fallback_call trx \<notin> set (issued w (snd (GasEstimate ftm trx w)))
         \<and> attempts (issued w (snd (GasEstimate ftm trx w))) = 1)
   \<and> (rpc_uint64 ftm ''ftm_estimateGas'' [Trx trx] (node w) = (Inl err, n)
        \<and> Contains (Error err) ''missing value''
        \<and> rpc_uint64 ftm ''ftm_estimateGas'' [Trx trx, BlockTypeLatest] n = (Inl err', n')
      \<longrightarrow> fst (GasEstimate ftm trx w) = (None, Some err')
          \<and> attempts (issued w (snd (GasEstimate ftm trx w))) = 2)"
proof (intro conjI impI)
  assume h: "rpc_uint64 ftm ''ftm_estimateGas'' [Trx trx] (node w) = (Inl err, n)
      \<and> \<not> Contains (Error err) ''missing value''"
  then have p: "rpc_uint64 ftm ''ftm_estimateGas'' [Trx trx] (node w) = (Inl err, n)"
    and c: "\<not> Contains (Error err) ''missing value''" by simp_all
  show "fst (GasEstimate ftm trx w) = (None, Some err)"
    by (rule GasEstimate_unrelated(1) [OF p c])
  show "fallback_call trx \<notin> set (issued w (snd (GasEstimate ftm trx w)))"
    by (simp add: GasEstimate_unrelated(2) [OF p c] fallback_call_def primary_call_def)
  show "attempts (issued w (snd (GasEstimate ftm trx w))) = 1"
    by (simp add: GasEstimate_unrelated(2) [OF p c] attempts_def primary_call_def)
next
  assume h: "rpc_uint64 ftm ''ftm_estimateGas'' [Trx trx] (node w) = (Inl err, n)
        \<and> Contains (Error err) ''missing value''
        \<and> rpc_uint64 ftm ''ftm_estimateGas'' [Trx trx, BlockTypeLatest] n = (Inl err', n')"
  then have p: "rpc_uint64 ftm ''ftm_estimateGas'' [Trx trx] (node w) = (Inl err, n)"
    and c: "Contains (Error err) ''missing value''"
    and f: "rpc_uint64 ftm ''ftm_estimateGas'' [Trx trx, BlockTypeLatest] n = (Inl err', n')"
    by simp_all
  show "fst (GasEstimate ftm trx w) = (None, Some err')"
    by (rule GasEstimate_fallback_fails(1) [OF p c f])
  show "attempts (issued w (snd (GasEstimate ftm trx w))) = 2"
    by (simp add: GasEstimate_fallback_fails(2) [OF p c f] attempts_def primary_call_def
        fallback_call_def)
qed

theorem GasEstimate_failures_witness:
  "rpc_uint64 unrelated_failure ''ftm_estimateGas'' [Trx None] (node w0)
     = (Inl (RpcError ''execution reverted''), 1)
   \<and> \<not> Contains (Error (RpcError ''execution reverted'')) ''missing value''
   \<and> fst (GasEstimate unrelated_failure None w0) = (None, Some (RpcError ''execution reverted''))
   \<and> attempts (issued w0 (snd (GasEstimate unrelated_failure None w0))) = 1
   \<and> rpc_uint64 high_then_down ''ftm_estimateGas'' [Trx None] (node w0)
       = (Inl (RpcError ''missing value for required argument 1''), 1)
   \<and> Contains (Error (RpcError ''missing value for required argument 1'')) ''missing value''
   \<and> rpc_uint64 high_then_down ''ftm_estimateGas'' [Trx None, BlockTypeLatest] 1
       = (Inl (RpcError ''execution reverted''), 2)
   \<and> fst (GasEstimate high_then_down None w0) = (None, Some (RpcError ''execution reverted''))
   \<and> attempts (issued w0 (snd (GasEstimate high_then_down None w0))) = 2"
proof -
  have a: "rpc_uint64 unrelated_failure ''ftm_estimateGas'' [Trx None] (node w0)
             = (Inl (RpcError ''execution reverted''), 1)"
    by (simp add: unrelated_failure_def w0_def)
  have b: "\<not> Contains (Error (RpcError ''execution reverted'')) ''missing value''"
    by simp
  have c: "rpc_uint64 high_then_down ''ftm_estimateGas'' [Trx None] (node w0)
             = (Inl (RpcError ''missing value for required argument 1''), 1)"
    by (simp add: high_then_down_def w0_def)
  have d: "Contains (Error (RpcError ''missing value for required argument 1'')) ''missing value''"
    by simp
  have e: "rpc_uint64 high_then_down ''ftm_estimateGas'' [Trx None, BlockTypeLatest] 1
             = (Inl (RpcError ''execution reverted''), 2)"
    by (simp add: high_then_down_def)
  from GasEstimate_failures [of unrelated_failure None w0 "RpcError ''execution reverted''" 1]
    GasEstimate_failures [of high_then_down None w0
      "RpcError ''missing value for required argument 1''" 1 "RpcError ''execution reverted''" 2]
    a b c d e
  show ?thesis by blast
qed

end
